theory Spec2Isabelle
  imports Main "HOL-Library.Multiset"
begin

section \<open>Magic Password Manager (mpm.py): data model\<close>

text \<open>
  A decrypted cell. \<open>cryptocode.decrypt\<close> returns the plaintext \<open>str\<close>, or the
  value \<open>False\<close> when the token is malformed or fails authentication; it never raises.
  The rows that \<open>open_database\<close> returns therefore hold \<open>str\<close> or \<open>False\<close>.
  Text is \<open>string\<close> throughout: the \<open>str\<close> values that have an encoding in UTF-8,
  which are the ones \<open>cryptocode.encrypt\<close> accepts.
\<close>

datatype cell = Str string | PyFalse

text \<open>
  The exceptions of the program, with the message where the program sets one.
  \<open>SystemExit\<close> is what \<open>sys.exit(msg)\<close> raises. \<open>UnicodeDecodeError\<close> (a subclass
  of \<open>ValueError\<close> in Python, with the decoder's message) and \<open>CsvError\<close>
  (\<open>csv.Error\<close>, with its message) are what reading a file can raise.
\<close>

datatype exn =
    FileExistsError string
  | FileNotFoundError string
  | ValueError string
  | UnicodeDecodeError string
  | CsvError string
  | IndexError
  | TypeError
  | SystemExit string

text \<open>
  The libraries the program calls and that are not part of the repository, as parameters:
  \<^item> \<open>encrypt L t message password\<close> is \<open>cryptocode.encrypt(message, password)\<close>; the
    library draws a fresh salt and nonce at every call, \<open>t\<close> is the number of the draw;
  \<^item> \<open>decrypt L token password\<close> is \<open>cryptocode.decrypt(token, password)\<close>;
  \<^item> \<open>randbelow L t n\<close> is the \<open>t\<close>-th draw of Python's \<open>random\<close> module, used
    below \<open>n\<close>;
  \<^item> \<open>glob L pattern\<close> is \<open>glob.glob(pattern)\<close>, the matching file names in
    enumeration order.
\<close>

record lib =
  encrypt :: "nat \<Rightarrow> string \<Rightarrow> string \<Rightarrow> string"
  decrypt :: "string \<Rightarrow> string \<Rightarrow> cell"
  randbelow :: "nat \<Rightarrow> nat \<Rightarrow> nat"
  glob :: "string \<Rightarrow> string list"

text \<open>
  What a file holds, as text mode and \<open>csv\<close> see it: either text, given by the rows
  of fields it is split into (\<open>csv.writer.writerow\<close> appends one such row), or bytes
  that are not text in the encoding of the locale, with the message of the decoder, or
  text on which \<open>csv.reader\<close> raises \<open>csv.Error\<close>, with its message (a NUL character
  under a Python before 3.11, for instance).
  Writing a row and splitting it again are taken to be inverse on the fields the program
  writes: the tokens of \<open>cryptocode\<close> are base64 text and stars, which \<open>csv\<close>
  neither quotes nor alters. What the reader does not give back is a field beyond its
  field size limit, see \<open>read_rows\<close> below.
\<close>

datatype file_content = Rows "string list list" | Undecodable string | Unparsable string

text \<open>
  The state outside the program: the files of the working directory and the number of
  random draws made so far.
\<close>

record world =
  files :: "string \<rightharpoonup> file_content"
  tick :: nat

type_synonym rows = "cell list list"

definition row_header :: "string list" where
  "row_header = [''index'', ''title'', ''username'', ''password'']"

definition db_ext :: string where
  "db_ext = ''.mpmdb''"

text \<open>\<open>csv.field_size_limit()\<close>, which the program leaves at its default.\<close>

definition field_size_limit :: nat where
  "field_size_limit = 131072"

section \<open>Python built-ins used by the program\<close>

text \<open>\<open>str(n)\<close> for a non-negative integer: its decimal digits.\<close>

definition digit_char :: "nat \<Rightarrow> char" where
  "digit_char d = char_of (48 + d)"

fun str_nat :: "nat \<Rightarrow> string" where
  "str_nat n = (if n < 10 then [digit_char n] else str_nat (n div 10) @ [digit_char (n mod 10)])"

declare str_nat.simps [simp del]

section \<open>The vault store\<close>

text \<open>
  \<open>[cryptocode.encrypt(column, master_pwd) for column in row]\<close>, left to right.
  \<open>cryptocode.encrypt\<close> calls \<open>bytes(message, 'utf-8')\<close>, which raises \<open>TypeError\<close>
  when the cell is \<open>False\<close>. The second component is the draw counter afterwards.
\<close>

fun encrypt_columns :: "lib \<Rightarrow> string \<Rightarrow> cell list \<Rightarrow> nat \<Rightarrow> (exn + string list) \<times> nat" where
  "encrypt_columns L pwd [] t = (Inr [], t)"
| "encrypt_columns L pwd (PyFalse # cs) t = (Inl TypeError, t)"
| "encrypt_columns L pwd (Str v # cs) t =
     (case encrypt_columns L pwd cs (Suc t) of
        (Inl e, t') \<Rightarrow> (Inl e, t')
      | (Inr ts, t') \<Rightarrow> (Inr (encrypt L t v pwd # ts), t'))"

text \<open>
  \<open>for row in rows: file_writer.writerow([... for column in row])\<close> on a file whose
  content so far is \<open>out\<close>. When a row cannot be encrypted the exception leaves the loop
  and the file keeps the rows written before.
\<close>

fun write_rows :: "lib \<Rightarrow> string \<Rightarrow> rows \<Rightarrow> string list list \<Rightarrow> nat \<Rightarrow>
    (exn + unit) \<times> string list list \<times> nat" where
  "write_rows L pwd [] out t = (Inr (), out, t)"
| "write_rows L pwd (row # rs) out t =
     (case encrypt_columns L pwd row t of
        (Inl e, t') \<Rightarrow> (Inl e, out, t')
      | (Inr ts, t') \<Rightarrow> write_rows L pwd rs (out @ [ts]) t')"

text \<open>
  \<open>[row for row in csv.reader(file)]\<close> on a file opened for reading as text: decoding
  bytes that are not text raises \<open>UnicodeDecodeError\<close>, and the reader raises
  \<open>csv.Error\<close> when a field is longer than the field size limit; otherwise all rows
  are read.
\<close>

definition read_rows :: "file_content \<Rightarrow> exn + string list list" where
  "read_rows content =
     (case content of
        Undecodable m \<Rightarrow> Inl (UnicodeDecodeError m)
      | Unparsable m \<Rightarrow> Inl (CsvError m)
      | Rows rs \<Rightarrow>
          if list_ex (\<lambda>row. list_ex (\<lambda>field. field_size_limit < length field) row) rs
          then Inl (CsvError ''field larger than field limit (131072)'') else Inr rs)"

definition create_empty_database :: "lib \<Rightarrow> world \<Rightarrow> string \<Rightarrow> string \<Rightarrow> (exn + unit) \<times> world" where
  "create_empty_database L w database master_pwd =
     (let db_file = database @ db_ext in
      if files w db_file \<noteq> None
      then (Inl (FileExistsError ''A database with that name already exists''), w)
      else (case write_rows L master_pwd [map Str row_header] [] (tick w) of
              (r, out, t') \<Rightarrow>
                (r, w\<lparr>files := (files w)(db_file \<mapsto> Rows out), tick := t'\<rparr>)))"

definition open_database :: "lib \<Rightarrow> world \<Rightarrow> string \<Rightarrow> string \<Rightarrow> exn + rows" where
  "open_database L w database master_pwd =
     (let db_file = database @ db_ext in
      case files w db_file of
        None \<Rightarrow> Inl (FileNotFoundError ''Database file not found'')
      | Some content \<Rightarrow>
          (case read_rows content of
             Inl e \<Rightarrow> Inl e
           | Inr password_rows \<Rightarrow>
               (let password_rows_decrypted =
                      map (\<lambda>row. map (\<lambda>column. decrypt L column master_pwd) row) password_rows
                in case password_rows_decrypted of
                     [] \<Rightarrow> Inl IndexError
                   | [] # _ \<Rightarrow> Inl IndexError
                   | (c # _) # _ \<Rightarrow>
                       if c \<noteq> Str ''index'' then Inl (ValueError ''Master password incorrect'')
                       else Inr password_rows_decrypted)))"

text \<open>\<open>open(db_file, "w")\<close> truncates the file (or creates it) before any row is written.\<close>

definition save_database :: "lib \<Rightarrow> world \<Rightarrow> string \<Rightarrow> string \<Rightarrow> rows \<Rightarrow> (exn + unit) \<times> world" where
  "save_database L w database master_pwd rs =
     (let db_file = database @ db_ext in
      case write_rows L master_pwd rs [] (tick w) of
        (r, out, t') \<Rightarrow> (r, w\<lparr>files := (files w)(db_file \<mapsto> Rows out), tick := t'\<rparr>))"

definition delete_database :: "world \<Rightarrow> string \<Rightarrow> (exn + unit) \<times> world" where
  "delete_database w database =
     (let db_file = database @ db_ext in
      if files w db_file = None
      then (Inl (FileNotFoundError ''Database file not found''), w)
      else (Inr (), w\<lparr>files := (files w)(db_file := None)\<rparr>))"

text \<open>
  \<open>db_file.split(".")\<close>: the pieces of the string between the separators, \<open>cur\<close>
  being the piece read so far. The result is never empty, so \<open>[0]\<close> on it is \<open>hd\<close>.
\<close>

fun split_acc :: "char \<Rightarrow> string \<Rightarrow> string \<Rightarrow> string list" where
  "split_acc sep [] cur = [cur]"
| "split_acc sep (c # cs) cur =
     (if c = sep then cur # split_acc sep cs [] else split_acc sep cs (cur @ [c]))"

definition split :: "char \<Rightarrow> string \<Rightarrow> string list" where
  "split sep s = split_acc sep s []"

definition get_database_names :: "lib \<Rightarrow> string \<Rightarrow> string list" where
  "get_database_names L search_pattern =
     (let db_files = glob L search_pattern
      in map (\<lambda>db_file. hd (split (CHR ''.'') db_file)) db_files)"

section \<open>The password generator\<close>

definition ascii_lowercase :: string where
  "ascii_lowercase = ''abcdefghijklmnopqrstuvwxyz''"

definition ascii_uppercase :: string where
  "ascii_uppercase = ''ABCDEFGHIJKLMNOPQRSTUVWXYZ''"

definition digits :: string where
  "digits = ''0123456789''"

definition punctuation :: string where
  "punctuation = ''!'' @ [CHR 0x22] @ ''#$%&'' @ [CHR 0x27] @ ''()*+,-./:;<=>?@['' @ [CHR 0x5C]
     @ '']^_'' @ [CHR 0x60] @ ''{|}~''"

text \<open>
  \<open>random.sample(population, k)\<close>: \<open>k\<close> elements at distinct positions of the
  population, in the order drawn; \<open>ValueError\<close> when \<open>k\<close> is negative or larger than
  the population. Each draw takes one element out of the pool of those left, so every
  outcome of the library is the outcome of some sequence of draws here.
\<close>

definition remove_at :: "nat \<Rightarrow> 'a list \<Rightarrow> 'a list" where
  "remove_at j xs = take j xs @ drop (Suc j) xs"

fun draw :: "lib \<Rightarrow> 'a list \<Rightarrow> nat \<Rightarrow> nat \<Rightarrow> 'a list" where
  "draw L pool 0 t = []"
| "draw L pool (Suc k) t =
     (if pool = [] then []
      else let j = randbelow L t (length pool) mod length pool
           in pool ! j # draw L (remove_at j pool) k (Suc t))"

definition sample :: "lib \<Rightarrow> 'a list \<Rightarrow> int \<Rightarrow> nat \<Rightarrow> (exn + 'a list) \<times> nat" where
  "sample L population k t =
     (if \<not> (0 \<le> k \<and> k \<le> int (length population))
      then (Inl (ValueError ''Sample larger than population or is negative''), t)
      else (Inr (draw L population (nat k) t), t + nat k))"

text \<open>
  \<open>random.shuffle(x)\<close>: for \<open>i\<close> from \<open>len(x) - 1\<close> down to \<open>1\<close>, swap \<open>x[i]\<close> with
  \<open>x[j]\<close> for a drawn \<open>j \<le> i\<close>.
\<close>

fun shuffle_from :: "lib \<Rightarrow> 'a list \<Rightarrow> nat \<Rightarrow> nat \<Rightarrow> 'a list" where
  "shuffle_from L x 0 t = x"
| "shuffle_from L x (Suc i) t =
     (let j = randbelow L t (Suc (Suc i)) mod Suc (Suc i)
      in shuffle_from L (x[Suc i := x ! j, j := x ! Suc i]) i (Suc t))"

definition shuffle :: "lib \<Rightarrow> 'a list \<Rightarrow> nat \<Rightarrow> 'a list \<times> nat" where
  "shuffle L x t = (shuffle_from L x (length x - 1) t, t + (length x - 1))"

definition MINIMUM_LENGTH :: int where
  "MINIMUM_LENGTH = 5"

definition create_random_password :: "lib \<Rightarrow> int \<Rightarrow> nat \<Rightarrow> (exn + string) \<times> nat" where
  "create_random_password L password_length0 t =
     (let password_length =
            (if password_length0 < MINIMUM_LENGTH then MINIMUM_LENGTH else password_length0);
          count_characters_per_group = password_length div 4;
          count_rest = password_length mod 4
      in case sample L ascii_lowercase (count_characters_per_group + count_rest) t of
           (Inl e, t1) \<Rightarrow> (Inl e, t1)
         | (Inr lower, t1) \<Rightarrow>
        (case sample L ascii_uppercase count_characters_per_group t1 of
           (Inl e, t2) \<Rightarrow> (Inl e, t2)
         | (Inr upper, t2) \<Rightarrow>
        (case sample L digits count_characters_per_group t2 of
           (Inl e, t3) \<Rightarrow> (Inl e, t3)
         | (Inr digs, t3) \<Rightarrow>
        (case sample L punctuation count_characters_per_group t3 of
           (Inl e, t4) \<Rightarrow> (Inl e, t4)
         | (Inr punct, t4) \<Rightarrow>
             (case shuffle L (lower @ upper @ digs @ punct) t4 of
                (password_characters, t5) \<Rightarrow> (Inr password_characters, t5))))))"

section \<open>The entry commands of \<open>main\<close>\<close>

text \<open>
  \<open>str(err)\<close> of an exception, as \<open>main\<close> prints it; for \<open>TypeError\<close> the message
  of \<open>bytes(False, 'utf-8')\<close>.
\<close>

fun exn_message :: "exn \<Rightarrow> string" where
  "exn_message (FileExistsError m) = m"
| "exn_message (FileNotFoundError m) = m"
| "exn_message (ValueError m) = m"
| "exn_message (UnicodeDecodeError m) = m"
| "exn_message (CsvError m) = m"
| "exn_message IndexError = ''list index out of range''"
| "exn_message TypeError = ''encoding without a string argument''"
| "exn_message (SystemExit m) = m"

text \<open>
  The \<open>try: rows = open_database(...)\<close> block that opens the \<open>open-db\<close>, \<open>add\<close> and
  \<open>remove\<close> commands: every exception of \<open>open_database\<close> becomes \<open>sys.exit\<close> with a
  message; \<open>except ValueError\<close> catches \<open>UnicodeDecodeError\<close> too.
\<close>

definition open_or_exit :: "lib \<Rightarrow> world \<Rightarrow> string \<Rightarrow> string \<Rightarrow> exn + rows" where
  "open_or_exit L w database master_pwd =
     (case open_database L w database master_pwd of
        Inr rs \<Rightarrow> Inr rs
      | Inl (FileNotFoundError err) \<Rightarrow> Inl (SystemExit (''Error: '' @ err))
      | Inl (ValueError err) \<Rightarrow> Inl (SystemExit (''Error: '' @ err))
      | Inl (UnicodeDecodeError err) \<Rightarrow> Inl (SystemExit (''Error: '' @ err))
      | Inl err \<Rightarrow> Inl (SystemExit (''Unexpected Error: '' @ exn_message err)))"

text \<open>
  The \<open>add\<close> command. \<open>args.password_length\<close> is \<open>None\<close> when the option \<open>-l\<close> is not
  given, and \<open>None < 5\<close> raises \<open>TypeError\<close>. The exceptions of the password generator
  and of \<open>save_database\<close> are not caught. The rows returned are the rows printed.
\<close>

definition main_add :: "lib \<Rightarrow> world \<Rightarrow> string \<Rightarrow> string \<Rightarrow> string \<Rightarrow> int option \<Rightarrow> string \<Rightarrow>
    (exn + rows) \<times> world" where
  "main_add L w database title username password_length master_pwd =
     (case open_or_exit L w database master_pwd of
        Inl e \<Rightarrow> (Inl e, w)
      | Inr rs \<Rightarrow>
          (let index = str_nat (length rs) in
           case (case password_length of
                   None \<Rightarrow> (Inl TypeError, tick w)
                 | Some n \<Rightarrow> create_random_password L n (tick w)) of
             (Inl e, t1) \<Rightarrow> (Inl e, w\<lparr>tick := t1\<rparr>)
           | (Inr password, t1) \<Rightarrow>
               (let rs' = rs @ [[Str index, Str title, Str username, Str password]] in
                case save_database L (w\<lparr>tick := t1\<rparr>) database master_pwd rs' of
                  (Inl e, w') \<Rightarrow> (Inl e, w')
                | (Inr _, w') \<Rightarrow> (Inr rs', w'))))"

text \<open>
  The re-index loop of the \<open>remove\<close> command:
  \<open>for index, row in enumerate(rows): if index > 0: row[0] = str(index)\<close>,
  from position \<open>index\<close> on. Assigning to \<open>row[0]\<close> of an empty row raises \<open>IndexError\<close>.
\<close>

fun reindex_from :: "nat \<Rightarrow> rows \<Rightarrow> exn + rows" where
  "reindex_from index [] = Inr []"
| "reindex_from index (row # rs) =
     (if index > 0 then
        (case row of
           [] \<Rightarrow> Inl IndexError
         | _ # cols \<Rightarrow>
             (case reindex_from (Suc index) rs of
                Inl e \<Rightarrow> Inl e
              | Inr rs' \<Rightarrow> Inr ((Str (str_nat index) # cols) # rs')))
      else
        (case reindex_from (Suc index) rs of
           Inl e \<Rightarrow> Inl e
         | Inr rs' \<Rightarrow> Inr (row # rs')))"

text \<open>\<open>rows.pop(i)\<close> for an index \<open>0 \<le> i < len(rows)\<close>: the rows without the one at \<open>i\<close>.\<close>

definition pop :: "rows \<Rightarrow> nat \<Rightarrow> rows" where
  "pop rs i = take i rs @ drop (Suc i) rs"

definition invalid_index_message :: string where
  "invalid_index_message = ''Could not remove item: Invalid index'' @ [CHR 0x0A]"

text \<open>The \<open>remove\<close> command; \<open>args.index\<close> is an integer of any sign.\<close>

definition main_remove :: "lib \<Rightarrow> world \<Rightarrow> string \<Rightarrow> int \<Rightarrow> string \<Rightarrow> (exn + rows) \<times> world" where
  "main_remove L w database index master_pwd =
     (case open_or_exit L w database master_pwd of
        Inl e \<Rightarrow> (Inl e, w)
      | Inr rs \<Rightarrow>
          if \<not> (1 \<le> index \<and> index < int (length rs))
          then (Inl (SystemExit invalid_index_message), w)
          else (case reindex_from 0 (pop rs (nat index)) of
                  Inl e \<Rightarrow> (Inl e, w)
                | Inr rs' \<Rightarrow>
                    (case save_database L w database master_pwd rs' of
                       (Inl e, w') \<Rightarrow> (Inl e, w')
                     | (Inr _, w') \<Rightarrow> (Inr rs', w'))))"




section \<open>A small cipher for running the model\<close>

text \<open>
  A stand-in for the cipher on concrete inputs: the token is the password, a star and
  the message; decryption returns \<open>False\<close> unless the token starts with the password
  and a star. The draws count upwards and no file matches a pattern.
\<close>

definition toy_lib :: lib where
  "toy_lib = \<lparr> encrypt = (\<lambda>t message password. password @ ''*'' @ message),
               decrypt = (\<lambda>token password.
                  if take (Suc (length password)) token = password @ ''*''
                  then Str (drop (Suc (length password)) token) else PyFalse),
               randbelow = (\<lambda>t n. t),
               glob = (\<lambda>pattern. []) \<rparr>"

definition empty_world :: world where
  "empty_world = \<lparr> files = Map.empty, tick = 0 \<rparr>"

section \<open>Specification vocabulary\<close>

text \<open>A cipher is sound when decrypting a token under the password that made it gives
  the message back, whatever salt was drawn.\<close>

definition roundtrip :: "lib \<Rightarrow> bool" where
  "roundtrip L = (\<forall>t v s. decrypt L (encrypt L t v s) s = Str v)"

text \<open>The stored rows of tokens as they decrypt under a password.\<close>

definition decrypt_rows :: "lib \<Rightarrow> string \<Rightarrow> string list list \<Rightarrow> rows" where
  "decrypt_rows L pwd trs = map (\<lambda>row. map (\<lambda>column. decrypt L column pwd) row) trs"

text \<open>The length the generator works with: the requested one, raised to the minimum.\<close>

definition effective_length :: "int \<Rightarrow> int" where
  "effective_length n = (if n < MINIMUM_LENGTH then MINIMUM_LENGTH else n)"

text \<open>How many characters of a password belong to a class
  (\<open>[char for char in pwd if char in cls]\<close> in the tests).\<close>

definition count_in :: "string \<Rightarrow> string \<Rightarrow> nat" where
  "count_in cls pwd = length (filter (\<lambda>c. c \<in> set cls) pwd)"

text \<open>The exception of \<open>random.sample\<close>.\<close>

definition sample_error :: exn where
  "sample_error = ValueError ''Sample larger than population or is negative''"

text \<open>A vault with two entries, stored under the password \<open>pw\<close> with the small cipher.\<close>

definition two_entry_world :: world where
  "two_entry_world =
     \<lparr> files = [''v.mpmdb'' \<mapsto>
         Rows [[''pw*index'', ''pw*title'', ''pw*username'', ''pw*password''],
          [''pw*1'', ''pw*Site'', ''pw*user'', ''pw*aB3$x''],
          [''pw*2'', ''pw*Shop'', ''pw*ron'', ''pw*Zq9!k'']]],
       tick = 0 \<rparr>"

text \<open>The exception \<open>open_database\<close> raises for a wrong master password.\<close>

definition wrong_secret :: exn where
  "wrong_secret = ValueError ''Master password incorrect''"






text \<open>The exception of \<open>csv.reader\<close> for a field longer than the field size limit.\<close>

definition limit_error :: exn where
  "limit_error = CsvError ''field larger than field limit (131072)''"

text \<open>Rows of tokens in which no field is longer than the field size limit.\<close>

definition fits_limit :: "string list list \<Rightarrow> bool" where
  "fits_limit trs =
     list_all (\<lambda>row. list_all (\<lambda>field. length field \<le> field_size_limit) row) trs"

text \<open>
  A cipher whose tokens, under the password \<open>pwd\<close>, stay within the field size limit
  for every message of at most \<open>K\<close> characters. (A token of \<open>cryptocode\<close> is four
  base64 texts and three stars, about 4/3 of the message and 75 characters more.)
\<close>

definition bounded_tokens :: "lib \<Rightarrow> string \<Rightarrow> nat \<Rightarrow> bool" where
  "bounded_tokens L pwd K =
     (\<forall>t v. length v \<le> K \<longrightarrow> length (encrypt L t v pwd) \<le> field_size_limit)"

text \<open>Cells that are text of at most \<open>K\<close> characters, rows of such cells, and commands
  whose title and username are that short.\<close>

fun short_cell :: "nat \<Rightarrow> cell \<Rightarrow> bool" where
  "short_cell K (Str v) = (length v \<le> K)"
| "short_cell K PyFalse = False"

definition short_row :: "nat \<Rightarrow> cell list \<Rightarrow> bool" where
  "short_row K row = list_all (short_cell K) row"



text \<open>The vault \<open>v\<close> right after its creation under the password \<open>pw\<close>.\<close>

definition created_world :: world where
  "created_world =
     \<lparr>files = [''v.mpmdb'' \<mapsto> Rows [[''pw*index'', ''pw*title'', ''pw*username'', ''pw*password'']]],
      tick = 4\<rparr>"

text \<open>A text one character longer than the field size limit.\<close>

definition long_text :: string where
  "long_text = replicate 131073 (CHR ''a'')"

text \<open>
  Backing files that exist and are unreadable or malformed: text that \<open>csv\<close> rejects,
  bytes that are not text, a vault with a field longer than the field size limit, an empty file, a file whose header
  was written without encryption, and a vault with an entry row of two fields, the first
  of them not a token.
\<close>

definition nul_world :: world where
  "nul_world = \<lparr>files = [''v.mpmdb'' \<mapsto> Unparsable ''line contains NUL''], tick = 0\<rparr>"

definition undecodable_world :: world where
  "undecodable_world =
     \<lparr>files = [''v.mpmdb'' \<mapsto>
        Undecodable ([CHR 0x27] @ ''utf-8'' @ [CHR 0x27] @ '' codec can'' @ [CHR 0x27] @
          ''t decode byte 0xff in position 0: invalid start byte'')],
      tick = 0\<rparr>"

definition long_field_world :: world where
  "long_field_world =
     \<lparr>files = [''v.mpmdb'' \<mapsto> Rows
         [[''pw*index'', ''pw*title'', ''pw*username'', ''pw*password''],
          [''pw*1'', ''pw*'' @ long_text, ''pw*user'', ''pw*aB3$x'']]],
      tick = 0\<rparr>"

definition empty_file_world :: world where
  "empty_file_world = \<lparr>files = [''v.mpmdb'' \<mapsto> Rows []], tick = 0\<rparr>"

definition plain_header_world :: world where
  "plain_header_world =
     \<lparr>files = [''v.mpmdb'' \<mapsto> Rows [[''index'', ''title'', ''username'', ''password'']]], tick = 0\<rparr>"

definition garbled_entry_world :: world where
  "garbled_entry_world =
     \<lparr>files = [''v.mpmdb'' \<mapsto>
         Rows [[''pw*index'', ''pw*title'', ''pw*username'', ''pw*password''],
          [''garbage'', ''pw*Site'']]],
      tick = 0\<rparr>"

text \<open>Rows as \<open>open_database\<close> returns them for a vault whose second row holds a field
  that did not decrypt.\<close>

definition garbled_rows :: rows where
  "garbled_rows =
     [[Str ''index'', Str ''title'', Str ''username'', Str ''password''],
      [Str ''1'', PyFalse, Str ''user'', Str ''aB3$x''],
      [Str ''2'', Str ''Shop'', Str ''ron'', Str ''Zq9!k'']]"

section \<open>Facts about the store\<close>

lemma roundtrip_toy_lib: "roundtrip toy_lib"
  by (simp add: roundtrip_def toy_lib_def)

lemma encrypt_columns_decrypt:
  "encrypt_columns L pwd row t = (Inr ts, t') \<Longrightarrow> roundtrip L \<Longrightarrow>
   map (\<lambda>column. decrypt L column pwd) ts = row"
  by (induction L pwd row t arbitrary: ts t' rule: encrypt_columns.induct)
     (auto simp: roundtrip_def split: prod.splits sum.splits)

lemma encrypt_columns_clean:
  "PyFalse \<notin> set row \<Longrightarrow> \<exists>ts. encrypt_columns L pwd row t = (Inr ts, t + length row)"
proof (induction L pwd row t rule: encrypt_columns.induct)
  case (3 L pwd v cs t)
  then obtain ts where "encrypt_columns L pwd cs (Suc t) = (Inr ts, Suc t + length cs)"
    by auto
  then show ?case by simp
qed auto

lemma encrypt_columns_dirty:
  "PyFalse \<in> set row \<Longrightarrow> \<exists>t'. encrypt_columns L pwd row t = (Inl TypeError, t')"
  by (induction L pwd row t rule: encrypt_columns.induct) (auto split: prod.splits sum.splits)

lemma write_rows_decrypt:
  "write_rows L pwd rs out t = (r, out', t') \<Longrightarrow> roundtrip L \<Longrightarrow>
   decrypt_rows L pwd out' = decrypt_rows L pwd out @ takeWhile (\<lambda>row. PyFalse \<notin> set row) rs"
proof (induction L pwd rs out t arbitrary: r out' t' rule: write_rows.induct)
  case (1 L pwd out t)
  then show ?case by simp
next
  case (2 L pwd row rs out t)
  show ?case
  proof (cases "PyFalse \<in> set row")
    case True
    then obtain t1 where "encrypt_columns L pwd row t = (Inl TypeError, t1)"
      using encrypt_columns_dirty by blast
    with 2 True show ?thesis by simp
  next
    case False
    then obtain ts where e: "encrypt_columns L pwd row t = (Inr ts, t + length row)"
      using encrypt_columns_clean by blast
    with 2 have "decrypt_rows L pwd out' = decrypt_rows L pwd (out @ [ts]) @ takeWhile (\<lambda>row. PyFalse \<notin> set row) rs"
      by simp
    moreover have "map (\<lambda>column. decrypt L column pwd) ts = row"
      using e 2 encrypt_columns_decrypt by blast
    ultimately show ?thesis using False by (simp add: decrypt_rows_def)
  qed
qed

lemma write_rows_result:
  "fst (write_rows L pwd rs out t) =
     (if list_all (\<lambda>row. PyFalse \<notin> set row) rs then Inr () else Inl TypeError)"
proof (induction L pwd rs out t rule: write_rows.induct)
  case (1 L pwd out t)
  then show ?case by simp
next
  case (2 L pwd row rs out t)
  show ?case
  proof (cases "PyFalse \<in> set row")
    case True
    then obtain t1 where "encrypt_columns L pwd row t = (Inl TypeError, t1)"
      using encrypt_columns_dirty by blast
    with True show ?thesis by simp
  next
    case False
    then obtain ts where e: "encrypt_columns L pwd row t = (Inr ts, t + length row)"
      using encrypt_columns_clean by blast
    with 2 False show ?thesis by simp
  qed
qed

lemma read_rows_Rows:
  "read_rows (Rows trs) = (if fits_limit trs then Inr trs else Inl limit_error)"
  by (auto simp: read_rows_def fits_limit_def limit_error_def list_all_iff list_ex_iff not_le)

lemma open_database_stored:
  "files w (database @ db_ext) = Some (Rows trs) \<Longrightarrow> fits_limit trs \<Longrightarrow>
   decrypt_rows L pwd trs = (Str ''index'' # cols) # rs \<Longrightarrow>
   open_database L w database pwd = Inr ((Str ''index'' # cols) # rs)"
  by (simp add: open_database_def decrypt_rows_def read_rows_Rows)

section \<open>Facts about the password generator\<close>

lemma length_remove_at: "j < length xs \<Longrightarrow> length (remove_at j xs) = length xs - 1"
  by (simp add: remove_at_def)

lemma set_remove_at: "set (remove_at j xs) \<subseteq> set xs"
  by (auto simp: remove_at_def dest: in_set_takeD in_set_dropD)

lemma length_draw: "k \<le> length pool \<Longrightarrow> length (draw L pool k t) = k"
proof (induction k arbitrary: pool t)
  case (Suc k)
  then have ne: "pool \<noteq> []" by auto
  let ?j = "randbelow L t (length pool) mod length pool"
  have "?j < length pool" using ne by simp
  then have "k \<le> length (remove_at ?j pool)" using Suc.prems by (simp add: length_remove_at)
  then have "length (draw L (remove_at ?j pool) k (Suc t)) = k" by (rule Suc.IH)
  then show ?case using ne by (simp add: Let_def)
qed simp

lemma set_draw: "set (draw L pool k t) \<subseteq> set pool"
proof (induction k arbitrary: pool t)
  case (Suc k)
  show ?case
  proof (cases "pool = []")
    case False
    let ?j = "randbelow L t (length pool) mod length pool"
    have "?j < length pool" using False by simp
    then have "pool ! ?j \<in> set pool" by simp
    moreover have "set (draw L (remove_at ?j pool) k (Suc t)) \<subseteq> set pool"
      by (rule subset_trans [OF Suc.IH set_remove_at])
    ultimately show ?thesis using False by (simp add: Let_def)
  qed simp
qed simp

lemma sample_Inr:
  assumes "sample L population k t = (Inr xs, t')"
  shows "length xs = nat k \<and> set xs \<subseteq> set population"
proof -
  from assms have k: "0 \<le> k" "k \<le> int (length population)"
    and xs: "xs = draw L population (nat k) t"
    by (simp_all add: sample_def split: if_splits)
  from k have "nat k \<le> length population" by simp
  then have "length xs = nat k" unfolding xs by (rule length_draw)
  moreover have "set xs \<subseteq> set population" unfolding xs by (rule set_draw)
  ultimately show ?thesis by simp
qed

lemma sample_ok:
  "0 \<le> k \<Longrightarrow> k \<le> int (length population) \<Longrightarrow> \<exists>xs. sample L population k t = (Inr xs, t + nat k)"
  by (simp add: sample_def)

lemma sample_fail:
  "int (length population) < k \<Longrightarrow> sample L population k t = (Inl sample_error, t)"
  by (simp add: sample_def sample_error_def)

lemma mset_shuffle_from: "i < length x \<Longrightarrow> mset (shuffle_from L x i t) = mset x"
proof (induction i arbitrary: x t)
  case (Suc i)
  let ?j = "randbelow L t (Suc (Suc i)) mod Suc (Suc i)"
  have j: "?j < length x"
  proof -
    have "?j < Suc (Suc i)" by simp
    moreover have "Suc (Suc i) \<le> length x" using Suc.prems by simp
    ultimately show ?thesis by (rule less_le_trans)
  qed
  have sw: "mset (x[Suc i := x ! ?j, ?j := x ! Suc i]) = mset x"
    using mset_swap [OF j Suc.prems] .
  have "i < length (x[Suc i := x ! ?j, ?j := x ! Suc i])" using Suc.prems by simp
  then have "mset (shuffle_from L (x[Suc i := x ! ?j, ?j := x ! Suc i]) i (Suc t))
     = mset (x[Suc i := x ! ?j, ?j := x ! Suc i])" by (rule Suc.IH)
  with sw show ?case by (simp add: Let_def)
qed simp

lemma mset_shuffle: "mset (fst (shuffle L x t)) = mset x"
proof (cases "x = []")
  case False
  then have "length x - 1 < length x" by simp
  then show ?thesis by (simp add: shuffle_def mset_shuffle_from)
qed (simp add: shuffle_def)

lemma length_class:
  "length ascii_lowercase = 26" "length ascii_uppercase = 26" "length digits = 10"
  "length punctuation = 32"
  by (simp_all add: ascii_lowercase_def ascii_uppercase_def digits_def punctuation_def)

lemma classes_disjoint:
  "set ascii_lowercase \<inter> set ascii_uppercase = {}"
  "set ascii_lowercase \<inter> set digits = {}"
  "set ascii_lowercase \<inter> set punctuation = {}"
  "set ascii_uppercase \<inter> set digits = {}"
  "set ascii_uppercase \<inter> set punctuation = {}"
  "set digits \<inter> set punctuation = {}"
  by (simp_all add: ascii_lowercase_def ascii_uppercase_def digits_def punctuation_def)

lemma count_in_all: "set xs \<subseteq> set cls \<Longrightarrow> count_in cls xs = length xs"
  by (simp add: count_in_def subset_iff)

lemma count_in_none: "set xs \<subseteq> set other \<Longrightarrow> set other \<inter> set cls = {} \<Longrightarrow> count_in cls xs = 0"
  by (auto simp: count_in_def filter_empty_conv)

lemma count_in_append: "count_in cls (xs @ ys) = count_in cls xs + count_in cls ys"
  by (simp add: count_in_def)

lemma count_in_mset: "mset xs = mset ys \<Longrightarrow> count_in cls xs = count_in cls ys"
proof -
  assume "mset xs = mset ys"
  then have "mset (filter (\<lambda>c. c \<in> set cls) xs) = mset (filter (\<lambda>c. c \<in> set cls) ys)"
    by simp
  then show ?thesis unfolding count_in_def by (rule mset_eq_length)
qed

lemma create_random_password_Inr:
  assumes "create_random_password L n t = (Inr pw, t')"
  shows "\<exists>lower upper digs punct.
           mset pw = mset (lower @ upper @ digs @ punct) \<and>
           length lower = nat (effective_length n div 4 + effective_length n mod 4) \<and>
           set lower \<subseteq> set ascii_lowercase \<and>
           length upper = nat (effective_length n div 4) \<and>
           set upper \<subseteq> set ascii_uppercase \<and>
           length digs = nat (effective_length n div 4) \<and>
           set digs \<subseteq> set digits \<and>
           length punct = nat (effective_length n div 4) \<and>
           set punct \<subseteq> set punctuation"
proof -
  define l where "l = effective_length n"
  from assms obtain lower t1 upper t2 digs t3 punct t4 where
    s1: "sample L ascii_lowercase (l div 4 + l mod 4) t = (Inr lower, t1)" and
    s2: "sample L ascii_uppercase (l div 4) t1 = (Inr upper, t2)" and
    s3: "sample L digits (l div 4) t2 = (Inr digs, t3)" and
    s4: "sample L punctuation (l div 4) t3 = (Inr punct, t4)" and
    pw: "pw = fst (shuffle L (lower @ upper @ digs @ punct) t4)"
    unfolding create_random_password_def effective_length_def l_def Let_def
    by (auto split: prod.splits sum.splits)
  have "mset pw = mset (lower @ upper @ digs @ punct)"
    unfolding pw by (rule mset_shuffle)
  with sample_Inr [OF s1] sample_Inr [OF s2] sample_Inr [OF s3] sample_Inr [OF s4]
  show ?thesis unfolding l_def by blast
qed

lemma create_random_password_succeeds:
  assumes "effective_length n \<le> 43"
  shows "\<exists>pw t'. create_random_password L n t = (Inr pw, t')"
proof -
  define l where "l = effective_length n"
  have l: "5 \<le> l" "l \<le> 43"
    using assms by (simp_all add: l_def effective_length_def MINIMUM_LENGTH_def)
  have b: "0 \<le> l div 4" "l div 4 \<le> 10" "0 \<le> l div 4 + l mod 4" "l div 4 + l mod 4 \<le> 13"
    using l by presburger+
  obtain lower where s1: "sample L ascii_lowercase (l div 4 + l mod 4) t
      = (Inr lower, t + nat (l div 4 + l mod 4))"
    using sample_ok [of "l div 4 + l mod 4" ascii_lowercase L t] b by (auto simp: length_class)
  obtain upper where s2: "sample L ascii_uppercase (l div 4) (t + nat (l div 4 + l mod 4))
      = (Inr upper, t + nat (l div 4 + l mod 4) + nat (l div 4))"
    using sample_ok [of "l div 4" ascii_uppercase L] b by (auto simp: length_class)
  obtain digs where s3: "sample L digits (l div 4) (t + nat (l div 4 + l mod 4) + nat (l div 4))
      = (Inr digs, t + nat (l div 4 + l mod 4) + nat (l div 4) + nat (l div 4))"
    using sample_ok [of "l div 4" digits L] b by (auto simp: length_class)
  obtain punct where s4: "sample L punctuation (l div 4)
        (t + nat (l div 4 + l mod 4) + nat (l div 4) + nat (l div 4))
      = (Inr punct, t + nat (l div 4 + l mod 4) + nat (l div 4) + nat (l div 4) + nat (l div 4))"
    using sample_ok [of "l div 4" punctuation L] b by (auto simp: length_class)
  show ?thesis
    unfolding create_random_password_def Let_def
    using s1 s2 s3 s4 by (simp add: l_def effective_length_def split: prod.splits)
qed

lemma create_random_password_fails:
  assumes "44 \<le> n"
  shows "\<exists>t'. create_random_password L n t = (Inl sample_error, t')"
proof -
  have n: "\<not> n < MINIMUM_LENGTH" using assms by (simp add: MINIMUM_LENGTH_def)
  have d: "int (length digits) < n div 4" using assms by (simp add: length_class)
  have f3: "\<And>t2. sample L digits (n div 4) t2 = (Inl sample_error, t2)"
    using d by (rule sample_fail)
  show ?thesis
  proof (cases "sample L ascii_lowercase (n div 4 + n mod 4) t")
    case (Pair r1 t1)
    note p1 = this
    show ?thesis
    proof (cases r1)
      case (Inl e)
      with p1 have "e = sample_error" by (auto simp: sample_def sample_error_def split: if_splits)
      with p1 Inl n show ?thesis by (simp add: create_random_password_def Let_def)
    next
      case (Inr lower)
      note r1 = this
      show ?thesis
      proof (cases "sample L ascii_uppercase (n div 4) t1")
        case (Pair r2 t2)
        note p2 = this
        show ?thesis
        proof (cases r2)
          case (Inl e)
          with p2 have "e = sample_error" by (auto simp: sample_def sample_error_def split: if_splits)
          with p1 r1 p2 Inl n show ?thesis by (simp add: create_random_password_def Let_def)
        next
          case (Inr upper)
          with p1 r1 p2 n f3 show ?thesis by (simp add: create_random_password_def Let_def)
        qed
      qed
    qed
  qed
qed

section \<open>Facts about the listing\<close>

lemma split_acc_hd: "hd (split_acc sep s cur) = cur @ takeWhile (\<lambda>c. c \<noteq> sep) s"
  by (induction s arbitrary: cur) auto

lemma get_database_names_takeWhile:
  "get_database_names L search_pattern =
     map (takeWhile (\<lambda>c. c \<noteq> CHR ''.'')) (glob L search_pattern)"
  by (simp add: get_database_names_def split_def split_acc_hd)

section \<open>Facts about saving and the commands\<close>


lemma open_or_exit_Inr:
  "open_database L w database pwd = Inr rs \<Longrightarrow> open_or_exit L w database pwd = Inr rs"
  by (simp add: open_or_exit_def)

lemma short_row_clean: "short_row K row \<Longrightarrow> PyFalse \<notin> set row"
proof
  assume s: "short_row K row" and "PyFalse \<in> set row"
  then have "short_cell K PyFalse" unfolding short_row_def list_all_iff by blast
  then show False by simp
qed


lemma encrypt_columns_fits:
  "encrypt_columns L pwd row t = (Inr ts, t') \<Longrightarrow> bounded_tokens L pwd K \<Longrightarrow>
   short_row K row \<Longrightarrow> list_all (\<lambda>field. length field \<le> field_size_limit) ts"
  by (induction L pwd row t arbitrary: ts t' rule: encrypt_columns.induct)
     (auto simp: bounded_tokens_def short_row_def split: prod.splits sum.splits)

lemma write_rows_fits:
  "write_rows L pwd rs out t = (r, out', t') \<Longrightarrow> bounded_tokens L pwd K \<Longrightarrow>
   list_all (short_row K) rs \<Longrightarrow> fits_limit out \<Longrightarrow> fits_limit out'"
proof (induction L pwd rs out t arbitrary: r out' t' rule: write_rows.induct)
  case (1 L pwd out t)
  then show ?case by simp
next
  case (2 L pwd row rs out t)
  from "2.prems" have row: "short_row K row" and rest: "list_all (short_row K) rs" by simp_all
  obtain ts where e: "encrypt_columns L pwd row t = (Inr ts, t + length row)"
    using encrypt_columns_clean [OF short_row_clean [OF row]] by blast
  have "list_all (\<lambda>field. length field \<le> field_size_limit) ts"
    using e "2.prems"(2) row by (rule encrypt_columns_fits)
  then have f: "fits_limit (out @ [ts])"
    using "2.prems"(4) by (simp add: fits_limit_def)
  from "2.prems"(1) e have "write_rows L pwd rs (out @ [ts]) (t + length row) = (r, out', t')"
    by simp
  from "2.IH" [OF _ _ this "2.prems"(2) rest f] e show ?case by simp
qed



lemma reindex_from_Inl: "reindex_from k rs = Inl e \<Longrightarrow> e = IndexError"
  by (induction k rs rule: reindex_from.induct) (auto split: if_splits list.splits sum.splits)

lemma save_database_Inl: "save_database L w database pwd rs = (Inl e, w') \<Longrightarrow> e = TypeError"
proof -
  assume a: "save_database L w database pwd rs = (Inl e, w')"
  then have "fst (write_rows L pwd rs [] (tick w)) = Inl e"
    by (auto simp: save_database_def Let_def split: prod.splits)
  then show ?thesis by (simp add: write_rows_result split: if_splits)
qed

lemma save_database_fst:
  "fst (save_database L w database pwd rs) =
     (if list_all (\<lambda>row. PyFalse \<notin> set row) rs then Inr () else Inl TypeError)"
proof -
  have "fst (save_database L w database pwd rs) = fst (write_rows L pwd rs [] (tick w))"
    by (simp add: save_database_def Let_def split: prod.splits)
  then show ?thesis by (simp add: write_rows_result)
qed

lemma clean_texts: "list_all (\<lambda>row. PyFalse \<notin> set row) (map (map Str) texts)"
  by (induction texts) auto

lemma open_two_entry_world:
  "open_database toy_lib two_entry_world ''v'' ''pw'' =
     Inr (map (map Str) ([''index'', ''title'', ''username'', ''password''] #
            [[''1'', ''Site'', ''user'', ''aB3$x''], [''2'', ''Shop'', ''ron'', ''Zq9!k'']]))"
  by (simp add: open_database_def two_entry_world_def toy_lib_def db_ext_def read_rows_def
      field_size_limit_def)

lemma open_two_entry_world_cells:
  "open_database toy_lib two_entry_world ''v'' ''pw'' =
     Inr ([Str ''index'', Str ''title'', Str ''username'', Str ''password''] #
            [[Str ''1'', Str ''Site'', Str ''user'', Str ''aB3$x''],
             [Str ''2'', Str ''Shop'', Str ''ron'', Str ''Zq9!k'']])"
  by (simp add: open_database_def two_entry_world_def toy_lib_def db_ext_def read_rows_def
      field_size_limit_def)

lemma bounded_tokens_toy_lib: "bounded_tokens toy_lib ''pw'' 43"
  by (simp add: bounded_tokens_def toy_lib_def field_size_limit_def)

lemma bounded_tokens_mono: "bounded_tokens L pwd K \<Longrightarrow> J \<le> K \<Longrightarrow> bounded_tokens L pwd J"
  by (simp add: bounded_tokens_def)

lemma length_long_text: "length long_text = 131073"
  by (simp add: long_text_def)

section \<open>Facts about the index invariant\<close>












lemma header_short: "8 \<le> K \<Longrightarrow> short_row K (map Str row_header)"
  by (simp add: short_row_def row_header_def)











lemma open_after_create:
  assumes rt: "roundtrip L" and bt: "bounded_tokens L master_pwd K" and k: "8 \<le> K"
    and c: "create_empty_database L w database master_pwd = (Inr (), w')"
  shows "open_database L w' database master_pwd = Inr [map Str row_header]"
proof -
  obtain r out t' where wr: "write_rows L master_pwd [map Str row_header] [] (tick w) = (r, out, t')"
    by (cases "write_rows L master_pwd [map Str row_header] [] (tick w)") auto
  from c have nofile: "files w (database @ db_ext) = None"
    by (auto simp: create_empty_database_def Let_def split: if_splits)
  with c wr have w': "w' = w\<lparr>files := (files w)(database @ db_ext \<mapsto> Rows out), tick := t'\<rparr>"
    by (simp add: create_empty_database_def Let_def)
  have "decrypt_rows L master_pwd out = decrypt_rows L master_pwd [] @
          takeWhile (\<lambda>row. PyFalse \<notin> set row) [map Str row_header]"
    using write_rows_decrypt [OF wr rt] .
  then have d: "decrypt_rows L master_pwd out =
      [Str ''index'' # [Str ''title'', Str ''username'', Str ''password'']]"
    by (simp add: decrypt_rows_def row_header_def)
  have "list_all (short_row K) [map Str row_header]"
    using k by (simp add: header_short)
  with wr bt have f: "fits_limit out"
    by (rule write_rows_fits) (simp add: fits_limit_def)
  have "files w' (database @ db_ext) = Some (Rows out)" by (simp add: w')
  from open_database_stored [OF this f d] show ?thesis by (simp add: row_header_def)
qed


lemma write_rows_length:
  "write_rows L pwd rs out t = (r, out', t') \<Longrightarrow>
   length out' = length out + length (takeWhile (\<lambda>row. PyFalse \<notin> set row) rs)"
proof (induction L pwd rs out t arbitrary: r out' t' rule: write_rows.induct)
  case (1 L pwd out t)
  then show ?case by simp
next
  case (2 L pwd row rs out t)
  show ?case
  proof (cases "PyFalse \<in> set row")
    case True
    then obtain t1 where "encrypt_columns L pwd row t = (Inl TypeError, t1)"
      using encrypt_columns_dirty by blast
    with 2 True show ?thesis by simp
  next
    case False
    then obtain ts where e: "encrypt_columns L pwd row t = (Inr ts, t + length row)"
      using encrypt_columns_clean by blast
    with 2 have "length out' = length (out @ [ts]) + length (takeWhile (\<lambda>row. PyFalse \<notin> set row) rs)"
      by simp
    then show ?thesis using False by simp
  qed
qed

section \<open>Runs with the small cipher\<close>



lemma create_toy_vault:
  "create_empty_database toy_lib empty_world ''v'' ''pw'' = (Inr (), created_world)"
  by (simp add: create_empty_database_def empty_world_def toy_lib_def row_header_def db_ext_def
      created_world_def)


lemma main_add_too_long:
  assumes "open_database L w database pwd = Inr rs" and "44 \<le> n"
  shows "fst (main_add L w database title username (Some n) pwd) = Inl sample_error \<and>
         files (snd (main_add L w database title username (Some n) pwd)) = files w"
proof -
  have o: "open_or_exit L w database pwd = Inr rs"
    using assms(1) by (rule open_or_exit_Inr)
  from create_random_password_fails [OF assms(2), of L "tick w"] obtain t' where
    "create_random_password L n (tick w) = (Inl sample_error, t')" by blast
  with o show ?thesis by (simp add: main_add_def)
qed

section \<open>Claims\<close>

text \<open>
  C2. After \<open>create_empty_database\<close> has succeeded for a database name and a master
  password, \<open>open_database\<close> with the same name and password returns exactly one row,
  the plaintext header \<open>["index", "title", "username", "password"]\<close>, and no entry row
  (for a cipher that decrypts what it encrypted and whose tokens for the header words,
  of at most 8 characters, are within the field size limit of \<open>csv\<close>).
\<close>

theorem create_then_open:
  assumes "roundtrip L" and "bounded_tokens L master_pwd 8"
    and "create_empty_database L w database master_pwd = (Inr (), w')"
  shows "open_database L w' database master_pwd =
           Inr [[Str ''index'', Str ''title'', Str ''username'', Str ''password'']]"
  using open_after_create [OF assms(1) assms(2) order_refl assms(3)]
  by (simp add: row_header_def)

theorem create_then_open_witness:
  "roundtrip toy_lib \<and> bounded_tokens toy_lib ''pw'' 8 \<and>
   create_empty_database toy_lib empty_world ''v'' ''pw'' = (Inr (), created_world) \<and>
   open_database toy_lib created_world ''v'' ''pw'' =
     Inr [[Str ''index'', Str ''title'', Str ''username'', Str ''password'']]"
proof -
  have b: "bounded_tokens toy_lib ''pw'' 8"
    using bounded_tokens_toy_lib by (rule bounded_tokens_mono) simp
  from create_then_open [OF roundtrip_toy_lib b create_toy_vault]
    roundtrip_toy_lib b create_toy_vault
  show ?thesis by simp
qed

text \<open>
  C9. The generator works with an effective length \<open>l\<close> of at least 5 (a smaller
  request is raised to 5). Every password it returns has exactly \<open>l\<close> characters, of
  which \<open>l div 4 + l mod 4\<close> are lower-case letters and \<open>l div 4\<close> each are
  upper-case letters, digits and punctuation, whatever the random draws (so in any order);
  and it does return a password whenever \<open>l \<le> 43\<close>.
\<close>

theorem password_distribution:
  "(effective_length n \<le> 43 \<longrightarrow> (\<exists>pw t'. create_random_password L n t = (Inr pw, t'))) \<and>
   (\<forall>pw t'. create_random_password L n t = (Inr pw, t') \<longrightarrow>
      5 \<le> effective_length n \<and>
      int (length pw) = effective_length n \<and>
      int (count_in ascii_lowercase pw) = effective_length n div 4 + effective_length n mod 4 \<and>
      int (count_in ascii_uppercase pw) = effective_length n div 4 \<and>
      int (count_in digits pw) = effective_length n div 4 \<and>
      int (count_in punctuation pw) = effective_length n div 4)"
proof (intro conjI allI impI)
  assume "effective_length n \<le> 43"
  then show "\<exists>pw t'. create_random_password L n t = (Inr pw, t')"
    by (rule create_random_password_succeeds)
next
  fix pw t'
  show "5 \<le> effective_length n" by (simp add: effective_length_def MINIMUM_LENGTH_def)
  then have nn: "0 \<le> effective_length n div 4" "0 \<le> effective_length n mod 4" by simp_all
  assume "create_random_password L n t = (Inr pw, t')"
  from create_random_password_Inr [OF this] obtain lower upper digs punct where
    m: "mset pw = mset (lower @ upper @ digs @ punct)" and
    l1: "length lower = nat (effective_length n div 4 + effective_length n mod 4)" and
    c1: "set lower \<subseteq> set ascii_lowercase" and
    l2: "length upper = nat (effective_length n div 4)" and
    c2: "set upper \<subseteq> set ascii_uppercase" and
    l3: "length digs = nat (effective_length n div 4)" and
    c3: "set digs \<subseteq> set digits" and
    l4: "length punct = nat (effective_length n div 4)" and
    c4: "set punct \<subseteq> set punctuation"
    by blast
  have "length pw = length (lower @ upper @ digs @ punct)"
    using m by (rule mset_eq_length)
  then show "int (length pw) = effective_length n"
    using l1 l2 l3 l4 nn by simp
  have "count_in ascii_lowercase pw = count_in ascii_lowercase (lower @ upper @ digs @ punct)"
    using m by (rule count_in_mset)
  also have "\<dots> = length lower"
    using c1 c2 c3 c4 classes_disjoint
    by (simp add: count_in_append count_in_all count_in_none [of _ ascii_uppercase]
        count_in_none [of _ digits] count_in_none [of _ punctuation] Int_commute)
  finally show "int (count_in ascii_lowercase pw) = effective_length n div 4 + effective_length n mod 4"
    using l1 nn by simp
  have "count_in ascii_uppercase pw = count_in ascii_uppercase (lower @ upper @ digs @ punct)"
    using m by (rule count_in_mset)
  also have "\<dots> = length upper"
    using c1 c2 c3 c4 classes_disjoint
    by (simp add: count_in_append count_in_all count_in_none [of _ ascii_lowercase]
        count_in_none [of _ digits] count_in_none [of _ punctuation] Int_commute)
  finally show "int (count_in ascii_uppercase pw) = effective_length n div 4"
    using l2 nn by simp
  have "count_in digits pw = count_in digits (lower @ upper @ digs @ punct)"
    using m by (rule count_in_mset)
  also have "\<dots> = length digs"
    using c1 c2 c3 c4 classes_disjoint
    by (simp add: count_in_append count_in_all count_in_none [of _ ascii_lowercase]
        count_in_none [of _ ascii_uppercase] count_in_none [of _ punctuation] Int_commute)
  finally show "int (count_in digits pw) = effective_length n div 4"
    using l3 nn by simp
  have "count_in punctuation pw = count_in punctuation (lower @ upper @ digs @ punct)"
    using m by (rule count_in_mset)
  also have "\<dots> = length punct"
    using c1 c2 c3 c4 classes_disjoint
    by (simp add: count_in_append count_in_all count_in_none [of _ ascii_lowercase]
        count_in_none [of _ ascii_uppercase] count_in_none [of _ digits] Int_commute)
  finally show "int (count_in punctuation pw) = effective_length n div 4"
    using l4 nn by simp
qed

theorem password_distribution_witness:
  "effective_length 9 \<le> 43 \<and>
   create_random_password toy_lib 9 0 = (Inr ''c75(D*Fea'', 17) \<and>
   int (length ''c75(D*Fea'') = 9 \<and>
   int (count_in ascii_lowercase ''c75(D*Fea'') = 3 \<and>
   int (count_in ascii_uppercase ''c75(D*Fea'') = 2 \<and>
   int (count_in digits ''c75(D*Fea'') = 2 \<and>
   int (count_in punctuation ''c75(D*Fea'') = 2"
proof -
  have e: "create_random_password toy_lib 9 0 = (Inr ''c75(D*Fea'', 17)"
    by code_simp
  have l: "effective_length 9 = 9"
    by (simp add: effective_length_def MINIMUM_LENGTH_def)
  from password_distribution [of 9 toy_lib 0] e l show ?thesis
    by simp
qed



text \<open>
  C10. For every requested length of 44 or more the generator raises \<open>ValueError\<close>
  (a sample larger than its population: \<open>length div 4\<close> is then above the 10 digits)
  and returns no password; for every requested length up to 43 it returns one.
\<close>

theorem password_length_limit:
  "(44 \<le> n \<longrightarrow>
      (\<exists>t'. create_random_password L n t =
         (Inl (ValueError ''Sample larger than population or is negative''), t'))) \<and>
   (n \<le> 43 \<longrightarrow> (\<exists>pw t'. create_random_password L n t = (Inr pw, t')))"
proof (intro conjI impI)
  assume "44 \<le> n"
  then show "\<exists>t'. create_random_password L n t =
         (Inl (ValueError ''Sample larger than population or is negative''), t')"
    using create_random_password_fails [of n L t] by (simp add: sample_error_def)
next
  assume "n \<le> 43"
  then have "effective_length n \<le> 43" by (simp add: effective_length_def MINIMUM_LENGTH_def)
  then show "\<exists>pw t'. create_random_password L n t = (Inr pw, t')"
    by (rule create_random_password_succeeds)
qed

theorem password_length_limit_witness:
  "(44::int) \<le> 44 \<and>
   fst (create_random_password toy_lib 44 0) =
     Inl (ValueError ''Sample larger than population or is negative'') \<and>
   (43::int) \<le> 43 \<and>
   (\<exists>pw. fst (create_random_password toy_lib 43 0) = Inr pw)"
proof -
  from password_length_limit [of 44 toy_lib 0]
  have a: "fst (create_random_password toy_lib 44 0) =
     Inl (ValueError ''Sample larger than population or is negative'')" by auto
  from password_length_limit [of 43 toy_lib 0]
  have b: "\<exists>pw. fst (create_random_password toy_lib 43 0) = Inr pw" by auto
  from a b show ?thesis by simp
qed

text \<open>
  C1, as stated, fails: a stored header whose first field decrypts to \<open>index\<close> and
  whose second field decrypts to something else than \<open>title\<close> differs from the
  canonical header, and \<open>open_database\<close> returns it without an error.
\<close>

theorem open_checks_one_field_counterexample:
  "decrypt_rows toy_lib ''pw'' [[''pw*index'', ''pw*oops'', ''pw*username'', ''pw*password'']]
     = [[Str ''index'', Str ''oops'', Str ''username'', Str ''password'']] \<and>
   [Str ''index'', Str ''oops'', Str ''username'', Str ''password''] \<noteq> map Str row_header \<and>
   snd (save_database toy_lib empty_world ''v'' ''pw''
          [[Str ''index'', Str ''oops'', Str ''username'', Str ''password'']])
     = \<lparr>files = [''v.mpmdb'' \<mapsto> Rows [[''pw*index'', ''pw*oops'', ''pw*username'', ''pw*password'']]],
        tick = 4\<rparr> \<and>
   open_database toy_lib
     \<lparr>files = [''v.mpmdb'' \<mapsto> Rows [[''pw*index'', ''pw*oops'', ''pw*username'', ''pw*password'']]],
      tick = 4\<rparr> ''v'' ''pw''
     = Inr [[Str ''index'', Str ''oops'', Str ''username'', Str ''password'']]"
  by (simp add: decrypt_rows_def toy_lib_def row_header_def save_database_def empty_world_def
      db_ext_def open_database_def read_rows_def field_size_limit_def)

text \<open>
  C1, amended. \<open>open_database\<close> raises the wrong-password \<open>ValueError\<close> exactly when
  the file exists and is read (it is text and no field is beyond the field size limit),
  its first row has a first field, and that field does not decrypt to the text
  \<open>index\<close>; the other three header fields are not compared. For a vault created under
  \<open>s1\<close> (the tokens of the header words being within the limit), opening it under
  \<open>s2\<close> raises this error whenever the cipher does not decrypt the first header token
  under \<open>s2\<close> to \<open>index\<close>.
\<close>

theorem wrong_secret_first_field:
  "(open_database L w database master_pwd = Inl wrong_secret) =
     (\<exists>c cols trs. files w (database @ db_ext) = Some (Rows ((c # cols) # trs)) \<and>
                   fits_limit ((c # cols) # trs) \<and>
                   decrypt L c master_pwd \<noteq> Str ''index'') \<and>
   (create_empty_database L w database s1 = (Inr (), w') \<longrightarrow>
    bounded_tokens L s1 8 \<longrightarrow>
    (\<forall>t. decrypt L (encrypt L t ''index'' s1) s2 \<noteq> Str ''index'') \<longrightarrow>
      open_database L w' database s2 = Inl wrong_secret)"
proof (intro conjI impI)
  show "(open_database L w database master_pwd = Inl wrong_secret) =
     (\<exists>c cols trs. files w (database @ db_ext) = Some (Rows ((c # cols) # trs)) \<and>
                   fits_limit ((c # cols) # trs) \<and>
                   decrypt L c master_pwd \<noteq> Str ''index'')"
  proof (cases "files w (database @ db_ext)")
    case None
    then show ?thesis by (simp add: open_database_def wrong_secret_def)
  next
    case (Some content)
    show ?thesis
    proof (cases content)
      case (Undecodable m)
      with Some show ?thesis by (simp add: open_database_def wrong_secret_def read_rows_def)
    next
      case (Unparsable m)
      with Some show ?thesis by (simp add: open_database_def wrong_secret_def read_rows_def)
    next
      case (Rows rs)
      show ?thesis
      proof (cases "fits_limit rs")
        case False
        with Some Rows show ?thesis
          by (auto simp: open_database_def wrong_secret_def read_rows_Rows limit_error_def)
      next
        case True
        with Some Rows show ?thesis
          by (auto simp: open_database_def wrong_secret_def read_rows_Rows Let_def
              split: list.splits)
      qed
    qed
  qed
next
  assume c: "create_empty_database L w database s1 = (Inr (), w')"
    and b: "bounded_tokens L s1 8"
    and r: "\<forall>t. decrypt L (encrypt L t ''index'' s1) s2 \<noteq> Str ''index''"
  let ?out = "[[encrypt L (tick w) ''index'' s1, encrypt L (Suc (tick w)) ''title'' s1,
             encrypt L (Suc (Suc (tick w))) ''username'' s1,
             encrypt L (Suc (Suc (Suc (tick w)))) ''password'' s1]]"
  from c have f: "files w' (database @ db_ext) = Some (Rows ?out)"
    by (auto simp: create_empty_database_def Let_def row_header_def split: if_splits)
  have "fits_limit ?out"
    using b by (simp add: fits_limit_def bounded_tokens_def)
  with f r show "open_database L w' database s2 = Inl wrong_secret"
    by (simp add: open_database_def wrong_secret_def read_rows_Rows)
qed

theorem wrong_secret_first_field_witness:
  "create_empty_database toy_lib empty_world ''v'' ''pw'' = (Inr (), created_world) \<and>
   bounded_tokens toy_lib ''pw'' 8 \<and>
   (\<forall>t. decrypt toy_lib (encrypt toy_lib t ''index'' ''pw'') ''other'' \<noteq> Str ''index'') \<and>
   open_database toy_lib created_world ''v'' ''other'' = Inl wrong_secret"
proof -
  have b: "bounded_tokens toy_lib ''pw'' 8"
    using bounded_tokens_toy_lib by (rule bounded_tokens_mono) simp
  have r: "\<forall>t. decrypt toy_lib (encrypt toy_lib t ''index'' ''pw'') ''other'' \<noteq> Str ''index''"
    by (simp add: toy_lib_def)
  from wrong_secret_first_field [of toy_lib empty_world "''v''" "''pw''" "''pw''" created_world
      "''other''"] create_toy_vault b r
  show ?thesis by blast
qed

text \<open>
  C4, as stated, fails for a password length of 44: the password generator raises
  \<open>ValueError\<close>, which the \<open>add\<close> command does not catch, so no row is appended and
  the file is left as it was.
\<close>

theorem add_raises_counterexample:
  "open_database toy_lib two_entry_world ''v'' ''pw'' =
     Inr [[Str ''index'', Str ''title'', Str ''username'', Str ''password''],
          [Str ''1'', Str ''Site'', Str ''user'', Str ''aB3$x''],
          [Str ''2'', Str ''Shop'', Str ''ron'', Str ''Zq9!k'']] \<and>
   fst (main_add toy_lib two_entry_world ''v'' ''Bank'' ''me'' (Some 44) ''pw'') =
     Inl (ValueError ''Sample larger than population or is negative'') \<and>
   files (snd (main_add toy_lib two_entry_world ''v'' ''Bank'' ''me'' (Some 44) ''pw'')) =
     files two_entry_world"
  using main_add_too_long [OF open_two_entry_world_cells, of 44 "''Bank''" "''me''"]
    open_two_entry_world_cells
  by (simp add: sample_error_def)

text \<open>
  C4, amended. On rows made of the header and \<open>N\<close> entries (text fields) and for every
  password length of at most 43, the \<open>add\<close> command returns the rows it opened with
  exactly one row appended at the end: the index \<open>str(N + 1)\<close>, the title, the username
  and the password the generator returned.
\<close>

theorem add_appends_entry:
  assumes opened: "open_database L w database master_pwd = Inr (map (map Str) (header # entries))"
    and n: "n \<le> 43"
  shows "\<exists>password t1.
           create_random_password L n (tick w) = (Inr password, t1) \<and>
           fst (main_add L w database title username (Some n) master_pwd) =
             Inr (map (map Str) (header # entries) @
                  [[Str (str_nat (length entries + 1)), Str title, Str username, Str password]])"
proof -
  from n have "effective_length n \<le> 43"
    by (simp add: effective_length_def MINIMUM_LENGTH_def)
  then obtain password t1 where gen: "create_random_password L n (tick w) = (Inr password, t1)"
    using create_random_password_succeeds by blast
  let ?rs = "map (map Str) (header # entries)"
  let ?rs' = "?rs @ [[Str (str_nat (length ?rs)), Str title, Str username, Str password]]"
  have o: "open_or_exit L w database master_pwd = Inr ?rs"
    using opened by (rule open_or_exit_Inr)
  have "?rs' = map (map Str) ((header # entries) @ [[str_nat (length ?rs), title, username, password]])"
    by simp
  then have "list_all (\<lambda>row. PyFalse \<notin> set row) ?rs'"
    using clean_texts by metis
  then have "fst (save_database L (w\<lparr>tick := t1\<rparr>) database master_pwd ?rs') = Inr ()"
    by (simp only: save_database_fst if_True)
  then obtain w' where "save_database L (w\<lparr>tick := t1\<rparr>) database master_pwd ?rs' = (Inr (), w')"
    by (cases "save_database L (w\<lparr>tick := t1\<rparr>) database master_pwd ?rs'") auto
  then have "main_add L w database title username (Some n) master_pwd = (Inr ?rs', w')"
    unfolding main_add_def Let_def using o gen by simp
  then have "fst (main_add L w database title username (Some n) master_pwd) = Inr ?rs'" by simp
  with gen show ?thesis by simp
qed

theorem add_appends_entry_witness:
  "(10::int) \<le> 43 \<and>
   create_random_password toy_lib 10 (tick two_entry_world) = (Inr ''cgG8+)6Eea'', 19) \<and>
   fst (main_add toy_lib two_entry_world ''v'' ''Bank'' ''me'' (Some 10) ''pw'') =
     Inr [[Str ''index'', Str ''title'', Str ''username'', Str ''password''],
          [Str ''1'', Str ''Site'', Str ''user'', Str ''aB3$x''],
          [Str ''2'', Str ''Shop'', Str ''ron'', Str ''Zq9!k''],
          [Str ''3'', Str ''Bank'', Str ''me'', Str ''cgG8+)6Eea'']]"
proof -
  have g0: "create_random_password toy_lib 10 0 = (Inr ''cgG8+)6Eea'', 19)"
    by code_simp
  have t0: "tick two_entry_world = 0" by (simp add: two_entry_world_def)
  have g: "create_random_password toy_lib 10 (tick two_entry_world) = (Inr ''cgG8+)6Eea'', 19)"
    by (simp only: t0 g0)
  have s: "str_nat (Suc (Suc (Suc 0))) = ''3''" by code_simp
  have n: "(10::int) \<le> 43" by simp
  from add_appends_entry [OF open_two_entry_world n, of "''Bank''" "''me''"] g s
  show ?thesis by simp
qed

text \<open>
  C5. On a vault that opens to the header and \<open>N\<close> entries, the \<open>remove\<close> command
  exits with the invalid-index message if and only if the position is outside \<open>1..N\<close>;
  then nothing is written, the stored rows stay as they were; position 99 is rejected on
  every vault with fewer than 99 entries.
\<close>

theorem remove_index_out_of_range:
  assumes "open_database L w database master_pwd = Inr (header # entries)"
  shows "(fst (main_remove L w database index master_pwd) = Inl (SystemExit invalid_index_message))
           = (\<not> (1 \<le> index \<and> index \<le> int (length entries))) \<and>
         (\<not> (1 \<le> index \<and> index \<le> int (length entries)) \<longrightarrow>
            snd (main_remove L w database index master_pwd) = w \<and>
            open_database L (snd (main_remove L w database index master_pwd)) database master_pwd
              = Inr (header # entries)) \<and>
         (length entries < 99 \<longrightarrow>
            fst (main_remove L w database 99 master_pwd) = Inl (SystemExit invalid_index_message))"
proof -
  have o: "open_or_exit L w database master_pwd = Inr (header # entries)"
    using assms by (rule open_or_exit_Inr)
  have bad: "\<And>i. \<not> (1 \<le> i \<and> i \<le> int (length entries)) \<Longrightarrow>
      main_remove L w database i master_pwd = (Inl (SystemExit invalid_index_message), w)"
    using o by (auto simp: main_remove_def)
  have good: "1 \<le> index \<and> index \<le> int (length entries) \<Longrightarrow>
      fst (main_remove L w database index master_pwd) \<noteq> Inl (SystemExit invalid_index_message)"
    using o by (auto simp: main_remove_def split: sum.splits prod.splits
        dest: reindex_from_Inl save_database_Inl)
  have "length entries < 99 \<Longrightarrow> \<not> (1 \<le> (99::int) \<and> 99 \<le> int (length entries))" by simp
  with bad [of index] bad [of 99] good assms show ?thesis by auto
qed

theorem remove_index_out_of_range_witness:
  "open_database toy_lib two_entry_world ''v'' ''pw'' =
     Inr ([Str ''index'', Str ''title'', Str ''username'', Str ''password''] #
            [[Str ''1'', Str ''Site'', Str ''user'', Str ''aB3$x''],
             [Str ''2'', Str ''Shop'', Str ''ron'', Str ''Zq9!k'']]) \<and>
   fst (main_remove toy_lib two_entry_world ''v'' 99 ''pw'') = Inl (SystemExit invalid_index_message) \<and>
   snd (main_remove toy_lib two_entry_world ''v'' 99 ''pw'') = two_entry_world \<and>
   fst (main_remove toy_lib two_entry_world ''v'' 0 ''pw'') = Inl (SystemExit invalid_index_message) \<and>
   fst (main_remove toy_lib two_entry_world ''v'' 3 ''pw'') = Inl (SystemExit invalid_index_message) \<and>
   fst (main_remove toy_lib two_entry_world ''v'' 2 ''pw'') \<noteq> Inl (SystemExit invalid_index_message)"
  using remove_index_out_of_range [OF open_two_entry_world_cells, of 99]
    remove_index_out_of_range [OF open_two_entry_world_cells, of 0]
    remove_index_out_of_range [OF open_two_entry_world_cells, of 3]
    remove_index_out_of_range [OF open_two_entry_world_cells, of 2]
    open_two_entry_world_cells
  by simp

text \<open>
  C8 on a directory with the files \<open>magicpwds.mpmdb\<close> and \<open>my.vault.mpmdb\<close>:
  \<open>get_database_names\<close> cuts each file name at its first dot, so the vault
  \<open>my.vault\<close> is listed as \<open>my\<close>.
\<close>

theorem get_database_names_dotted:
  "get_database_names (toy_lib\<lparr>glob := (\<lambda>pattern. [''magicpwds.mpmdb'', ''my.vault.mpmdb''])\<rparr>)
     ''*.mpmdb'' = [''magicpwds'', ''my'']"
  by (simp add: get_database_names_takeWhile)




text \<open>
  C6, as stated, fails: \<open>open_database\<close> has no error of its own for a corrupt store.
  On bytes that are not text it raises \<open>UnicodeDecodeError\<close>, and on text that
  \<open>csv\<close> rejects or with a field beyond the field size limit \<open>csv.Error\<close>, the errors
  of the library; on an existing empty file
  the low-level \<open>IndexError\<close>; on a file whose first field is not a token the same
  \<open>ValueError\<close> as for a wrong password; and on a vault with a malformed entry row it
  returns the rows, the field that did not decrypt being \<open>False\<close>.
\<close>

theorem corrupt_store_counterexample:
  "open_database toy_lib nul_world ''v'' ''pw'' = Inl (CsvError ''line contains NUL'') \<and>
   open_database toy_lib undecodable_world ''v'' ''pw'' =
     Inl (UnicodeDecodeError ([CHR 0x27] @ ''utf-8'' @ [CHR 0x27] @ '' codec can'' @ [CHR 0x27] @
          ''t decode byte 0xff in position 0: invalid start byte'')) \<and>
   open_database toy_lib long_field_world ''v'' ''pw'' = Inl limit_error \<and>
   open_database toy_lib empty_file_world ''v'' ''pw'' = Inl IndexError \<and>
   open_database toy_lib plain_header_world ''v'' ''pw'' = Inl wrong_secret \<and>
   open_database toy_lib garbled_entry_world ''v'' ''pw'' =
     Inr [[Str ''index'', Str ''title'', Str ''username'', Str ''password''],
          [PyFalse, Str ''Site'']]"
  by (simp add: open_database_def nul_world_def undecodable_world_def long_field_world_def
      empty_file_world_def plain_header_world_def garbled_entry_world_def toy_lib_def
      db_ext_def wrong_secret_def read_rows_def field_size_limit_def length_long_text
      limit_error_def)

text \<open>
  C6, amended. For a backing file that exists, \<open>open_database\<close> signals no error kind
  of its own: bytes that are not text raise \<open>UnicodeDecodeError\<close>; text that
  \<open>csv\<close> rejects, or with a field beyond the field size limit, raises \<open>csv.Error\<close>; text with no row, or with an empty
  first row, raises \<open>IndexError\<close>; and when the first row has a first field, the
  outcome depends on that field alone: the wrong-password \<open>ValueError\<close> if it does not
  decrypt to \<open>index\<close>, and otherwise all rows as they decrypt, malformed fields
  included.
\<close>

theorem open_database_outcomes:
  "(\<forall>m. files w (database @ db_ext) = Some (Undecodable m) \<longrightarrow>
        open_database L w database master_pwd = Inl (UnicodeDecodeError m)) \<and>
   (\<forall>m. files w (database @ db_ext) = Some (Unparsable m) \<longrightarrow>
        open_database L w database master_pwd = Inl (CsvError m)) \<and>
   (\<forall>trs. files w (database @ db_ext) = Some (Rows trs) \<longrightarrow> \<not> fits_limit trs \<longrightarrow>
        open_database L w database master_pwd = Inl limit_error) \<and>
   (\<forall>trs. files w (database @ db_ext) = Some (Rows trs) \<longrightarrow> fits_limit trs \<longrightarrow>
        (trs = [] \<or> (\<exists>rest. trs = [] # rest)) \<longrightarrow>
        open_database L w database master_pwd = Inl IndexError) \<and>
   (\<forall>c cols trs. files w (database @ db_ext) = Some (Rows ((c # cols) # trs)) \<longrightarrow>
        fits_limit ((c # cols) # trs) \<longrightarrow>
        open_database L w database master_pwd =
          (if decrypt L c master_pwd = Str ''index''
           then Inr (decrypt_rows L master_pwd ((c # cols) # trs)) else Inl wrong_secret))"
proof (intro conjI allI impI)
  fix m assume "files w (database @ db_ext) = Some (Undecodable m)"
  then show "open_database L w database master_pwd = Inl (UnicodeDecodeError m)"
    by (simp add: open_database_def read_rows_def)
next
  fix m assume "files w (database @ db_ext) = Some (Unparsable m)"
  then show "open_database L w database master_pwd = Inl (CsvError m)"
    by (simp add: open_database_def read_rows_def)
next
  fix trs assume "files w (database @ db_ext) = Some (Rows trs)" "\<not> fits_limit trs"
  then show "open_database L w database master_pwd = Inl limit_error"
    by (simp add: open_database_def read_rows_Rows)
next
  fix trs assume "files w (database @ db_ext) = Some (Rows trs)" "fits_limit trs"
    "trs = [] \<or> (\<exists>rest. trs = [] # rest)"
  then show "open_database L w database master_pwd = Inl IndexError"
    by (auto simp: open_database_def read_rows_Rows)
next
  fix c cols trs
  assume "files w (database @ db_ext) = Some (Rows ((c # cols) # trs))"
    "fits_limit ((c # cols) # trs)"
  then show "open_database L w database master_pwd =
          (if decrypt L c master_pwd = Str ''index''
           then Inr (decrypt_rows L master_pwd ((c # cols) # trs)) else Inl wrong_secret)"
    by (simp add: open_database_def read_rows_Rows wrong_secret_def decrypt_rows_def)
qed

theorem open_database_outcomes_witness:
  "open_database toy_lib nul_world ''v'' ''pw'' = Inl (CsvError ''line contains NUL'') \<and>
   open_database toy_lib undecodable_world ''v'' ''pw'' =
     Inl (UnicodeDecodeError ([CHR 0x27] @ ''utf-8'' @ [CHR 0x27] @ '' codec can'' @ [CHR 0x27] @
          ''t decode byte 0xff in position 0: invalid start byte'')) \<and>
   \<not> fits_limit [[''pw*index'', ''pw*title'', ''pw*username'', ''pw*password''],
                   [''pw*1'', ''pw*'' @ long_text, ''pw*user'', ''pw*aB3$x'']] \<and>
   open_database toy_lib long_field_world ''v'' ''pw'' = Inl limit_error \<and>
   fits_limit [] \<and>
   open_database toy_lib empty_file_world ''v'' ''pw'' = Inl IndexError \<and>
   fits_limit ((''pw*index'' # [''pw*title'', ''pw*username'', ''pw*password'']) #
               [[''garbage'', ''pw*Site'']]) \<and>
   decrypt toy_lib ''pw*index'' ''pw'' = Str ''index'' \<and>
   open_database toy_lib garbled_entry_world ''v'' ''pw'' =
     Inr [[Str ''index'', Str ''title'', Str ''username'', Str ''password''],
          [PyFalse, Str ''Site'']]"
proof -
  have fn: "files nul_world (''v'' @ db_ext) = Some (Unparsable ''line contains NUL'')"
    by (simp add: nul_world_def db_ext_def)
  from open_database_outcomes [of nul_world "''v''" toy_lib "''pw''"] fn
  have an: "open_database toy_lib nul_world ''v'' ''pw'' = Inl (CsvError ''line contains NUL'')"
    by blast
  have f0: "files undecodable_world (''v'' @ db_ext) =
      Some (Undecodable ([CHR 0x27] @ ''utf-8'' @ [CHR 0x27] @ '' codec can'' @ [CHR 0x27] @
          ''t decode byte 0xff in position 0: invalid start byte''))"
    by (simp add: undecodable_world_def db_ext_def)
  have f1: "files long_field_world (''v'' @ db_ext) =
      Some (Rows [[''pw*index'', ''pw*title'', ''pw*username'', ''pw*password''],
                  [''pw*1'', ''pw*'' @ long_text, ''pw*user'', ''pw*aB3$x'']])"
    by (simp add: long_field_world_def db_ext_def)
  have n1: "\<not> fits_limit [[''pw*index'', ''pw*title'', ''pw*username'', ''pw*password''],
                   [''pw*1'', ''pw*'' @ long_text, ''pw*user'', ''pw*aB3$x'']]"
    by (simp add: fits_limit_def field_size_limit_def length_long_text)
  have f2: "files empty_file_world (''v'' @ db_ext) = Some (Rows [])"
    by (simp add: empty_file_world_def db_ext_def)
  have n2: "fits_limit []" by (simp add: fits_limit_def)
  have f3: "files garbled_entry_world (''v'' @ db_ext) =
     Some (Rows ((''pw*index'' # [''pw*title'', ''pw*username'', ''pw*password'']) #
                 [[''garbage'', ''pw*Site'']]))"
    by (simp add: garbled_entry_world_def db_ext_def)
  have n3: "fits_limit ((''pw*index'' # [''pw*title'', ''pw*username'', ''pw*password'']) #
               [[''garbage'', ''pw*Site'']])"
    by (simp add: fits_limit_def field_size_limit_def)
  have d: "decrypt toy_lib ''pw*index'' ''pw'' = Str ''index''"
    by (simp add: toy_lib_def)
  have r: "decrypt_rows toy_lib ''pw''
      ((''pw*index'' # [''pw*title'', ''pw*username'', ''pw*password'']) # [[''garbage'', ''pw*Site'']])
     = [[Str ''index'', Str ''title'', Str ''username'', Str ''password''], [PyFalse, Str ''Site'']]"
    by (simp add: decrypt_rows_def toy_lib_def)
  from open_database_outcomes [of undecodable_world "''v''" toy_lib "''pw''"] f0
  have a0: "open_database toy_lib undecodable_world ''v'' ''pw'' =
     Inl (UnicodeDecodeError ([CHR 0x27] @ ''utf-8'' @ [CHR 0x27] @ '' codec can'' @ [CHR 0x27] @
          ''t decode byte 0xff in position 0: invalid start byte''))" by blast
  from open_database_outcomes [of long_field_world "''v''" toy_lib "''pw''"] f1 n1
  have a1: "open_database toy_lib long_field_world ''v'' ''pw'' = Inl limit_error" by blast
  from open_database_outcomes [of empty_file_world "''v''" toy_lib "''pw''"] f2 n2
  have a2: "open_database toy_lib empty_file_world ''v'' ''pw'' = Inl IndexError" by blast
  from open_database_outcomes [of garbled_entry_world "''v''" toy_lib "''pw''"] f3 n3 d r
  have a3: "open_database toy_lib garbled_entry_world ''v'' ''pw'' =
     Inr [[Str ''index'', Str ''title'', Str ''username'', Str ''password''],
          [PyFalse, Str ''Site'']]" by simp
  from an a0 n1 a1 n2 a2 n3 d a3 show ?thesis by blast
qed

text \<open>
  C7, as stated, fails: \<open>save_database\<close> writes into the live file. Saving rows whose
  second row holds a field that did not decrypt raises \<open>TypeError\<close> in the middle, and
  the vault that held two entries is left with the header row only.
\<close>

theorem save_not_atomic_counterexample:
  "files two_entry_world ''v.mpmdb'' = Some (Rows
      [[''pw*index'', ''pw*title'', ''pw*username'', ''pw*password''],
       [''pw*1'', ''pw*Site'', ''pw*user'', ''pw*aB3$x''],
       [''pw*2'', ''pw*Shop'', ''pw*ron'', ''pw*Zq9!k'']]) \<and>
   save_database toy_lib two_entry_world ''v'' ''pw''
      [[Str ''index'', Str ''title'', Str ''username'', Str ''password''],
       [Str ''1'', PyFalse, Str ''user'', Str ''aB3$x''],
       [Str ''2'', Str ''Shop'', Str ''ron'', Str ''Zq9!k'']]
     = (Inl TypeError,
        \<lparr>files = [''v.mpmdb'' \<mapsto> Rows [[''pw*index'', ''pw*title'', ''pw*username'', ''pw*password'']]],
         tick = 5\<rparr>)"
  by (simp add: two_entry_world_def save_database_def toy_lib_def db_ext_def)

text \<open>
  C7, amended. \<open>save_database\<close> rewrites the backing file of the vault in place: no
  other file is created or changed; the file is truncated and holds afterwards the rows up
  to the first one that cannot be encrypted (all of them when none fails), each field
  encrypted anew; the call raises \<open>TypeError\<close> exactly when some row holds a field that
  is not text.
\<close>

theorem save_database_in_place:
  "(\<forall>f. f \<noteq> database @ db_ext \<longrightarrow>
        files (snd (save_database L w database master_pwd rs)) f = files w f) \<and>
   (\<exists>out. files (snd (save_database L w database master_pwd rs)) (database @ db_ext) = Some (Rows out) \<and>
          length out = length (takeWhile (\<lambda>row. PyFalse \<notin> set row) rs) \<and>
          (roundtrip L \<longrightarrow>
             decrypt_rows L master_pwd out = takeWhile (\<lambda>row. PyFalse \<notin> set row) rs)) \<and>
   fst (save_database L w database master_pwd rs) =
     (if list_all (\<lambda>row. PyFalse \<notin> set row) rs then Inr () else Inl TypeError)"
proof -
  obtain r out t' where wr: "write_rows L master_pwd rs [] (tick w) = (r, out, t')"
    by (cases "write_rows L master_pwd rs [] (tick w)") auto
  then have s: "save_database L w database master_pwd rs =
      (r, w\<lparr>files := (files w)(database @ db_ext \<mapsto> Rows out), tick := t'\<rparr>)"
    by (simp add: save_database_def Let_def)
  have len: "length out = length (takeWhile (\<lambda>row. PyFalse \<notin> set row) rs)"
    using write_rows_length [OF wr] by simp
  have dec: "roundtrip L \<Longrightarrow>
      decrypt_rows L master_pwd out = takeWhile (\<lambda>row. PyFalse \<notin> set row) rs"
    using write_rows_decrypt [OF wr] by (simp add: decrypt_rows_def)
  have "files (snd (save_database L w database master_pwd rs)) (database @ db_ext) = Some (Rows out)"
    by (simp add: s)
  with len dec have mid: "\<exists>out.
      files (snd (save_database L w database master_pwd rs)) (database @ db_ext) = Some (Rows out) \<and>
      length out = length (takeWhile (\<lambda>row. PyFalse \<notin> set row) rs) \<and>
      (roundtrip L \<longrightarrow>
         decrypt_rows L master_pwd out = takeWhile (\<lambda>row. PyFalse \<notin> set row) rs)"
    by blast
  have other: "\<forall>f. f \<noteq> database @ db_ext \<longrightarrow>
        files (snd (save_database L w database master_pwd rs)) f = files w f"
    by (simp add: s)
  from other mid save_database_fst [of L w database master_pwd rs] show ?thesis by blast
qed

theorem save_database_in_place_witness:
  "''other.mpmdb'' \<noteq> ''v'' @ db_ext \<and>
   files (snd (save_database toy_lib two_entry_world ''v'' ''pw'' garbled_rows)) ''other.mpmdb''
     = files two_entry_world ''other.mpmdb'' \<and>
   roundtrip toy_lib \<and>
   (\<exists>out. files (snd (save_database toy_lib two_entry_world ''v'' ''pw'' garbled_rows))
            (''v'' @ db_ext) = Some (Rows out) \<and>
          length out = 1 \<and>
          decrypt_rows toy_lib ''pw'' out =
            [[Str ''index'', Str ''title'', Str ''username'', Str ''password'']]) \<and>
   fst (save_database toy_lib two_entry_world ''v'' ''pw'' garbled_rows) = Inl TypeError"
proof -
  have n: "''other.mpmdb'' \<noteq> ''v'' @ db_ext" by (simp add: db_ext_def)
  have t: "takeWhile (\<lambda>row. PyFalse \<notin> set row) garbled_rows =
      [[Str ''index'', Str ''title'', Str ''username'', Str ''password'']]"
    by (simp add: garbled_rows_def)
  have a: "\<not> list_all (\<lambda>row. PyFalse \<notin> set row) garbled_rows"
    by (simp add: garbled_rows_def)
  from save_database_in_place [of "''v''" toy_lib two_entry_world "''pw''" garbled_rows]
    n t a roundtrip_toy_lib
  show ?thesis by simp
qed

end
